theory Spec2Isabelle
  imports Complex_Main
begin

section \<open>Values of the Python run time\<close>

text \<open>
  A route of the backend ends in one of three ways: it returns the entity, it returns one
  of the prepared \<open>JSONResponse\<close> objects of \<open>exceptions.py\<close>, or an exception that
  nothing catches leaves it (the framework answers 500). The last two are the two
  constructors of \<open>failure\<close>.
\<close>

datatype py_exception =
  AttributeError | KeyError | OverflowError | IntegrityError | DataError

datatype json_response =
    EMAIL_USED
  | INACTIVE_USER
  | INVALID_CREDENTIALS
  | INVALID_AWS_CREDENTIALS
  | BOOKING_NOT_FOUND
  | BOOKING_MODIFY_UNAUTHORIZED
  | LOCATION_NOT_FOUND

datatype failure = Returned json_response | Raised py_exception

fun status_code :: "json_response \<Rightarrow> nat" where
  "status_code EMAIL_USED = 400"
| "status_code INACTIVE_USER = 400"
| "status_code INVALID_CREDENTIALS = 401"
| "status_code INVALID_AWS_CREDENTIALS = 401"
| "status_code BOOKING_NOT_FOUND = 404"
| "status_code BOOKING_MODIFY_UNAUTHORIZED = 403"
| "status_code LOCATION_NOT_FOUND = 404"

subsection \<open>Dates and timestamps\<close>

text \<open>
  \<open>datetime.date\<close> is a year, a month and a day of the proleptic Gregorian calendar.
  \<open>toordinal\<close> is the day number Python gives a date (1 for 0001-01-01), computed as
  the standard library does; \<open>date_max_ordinal\<close> is the ordinal of 9999-12-31.
\<close>

record date =
  year :: int
  month :: int
  day :: int

definition is_leap :: "int \<Rightarrow> bool" where
  "is_leap y = (y mod 4 = 0 \<and> (y mod 100 \<noteq> 0 \<or> y mod 400 = 0))"

definition days_in_month :: "int \<Rightarrow> int \<Rightarrow> int" where
  "days_in_month y m =
     (if m = 2 then (if is_leap y then 29 else 28)
      else if m = 4 \<or> m = 6 \<or> m = 9 \<or> m = 11 then 30 else 31)"

definition valid_date :: "date \<Rightarrow> bool" where
  "valid_date d =
     (1 \<le> year d \<and> year d \<le> 9999 \<and> 1 \<le> month d \<and> month d \<le> 12 \<and>
      1 \<le> day d \<and> day d \<le> days_in_month (year d) (month d))"

definition days_before_year :: "int \<Rightarrow> int" where
  "days_before_year y =
     (y - 1) * 365 + (y - 1) div 4 - (y - 1) div 100 + (y - 1) div 400"

fun days_before_month :: "int \<Rightarrow> int \<Rightarrow> int" where
  "days_before_month y m =
     (if m \<le> 1 then 0 else days_in_month y (m - 1) + days_before_month y (m - 1))"

definition toordinal :: "date \<Rightarrow> int" where
  "toordinal d = days_before_year (year d) + days_before_month (year d) (month d) + day d"

definition date_max_ordinal :: int where
  "date_max_ordinal = 3652059"

text \<open>
  \<open>date + timedelta(days=n)\<close>: the date \<open>n\<close> days later, given by its ordinal, or
  \<open>OverflowError\<close> when that day lies outside 0001-01-01 .. 9999-12-31.
\<close>

definition date_add_days :: "date \<Rightarrow> int \<Rightarrow> py_exception + int" where
  "date_add_days d n =
     (let o' = toordinal d + n
      in if 0 < o' \<and> o' \<le> date_max_ordinal then Inr o' else Inl OverflowError)"

text \<open>
  A naive \<open>datetime.datetime\<close>: a date and the microseconds since its midnight
  (from 0 up to, not including, \<open>us_per_day\<close>). \<open>timestamp_us\<close> places it on one
  line of microseconds; a date compared with a timestamp column stands for its midnight.
\<close>

record datetime =
  on_date :: date
  us_of_day :: int

definition us_per_day :: int where
  "us_per_day = 86400000000"

definition timestamp_us :: "datetime \<Rightarrow> int" where
  "timestamp_us t = toordinal (on_date t) * us_per_day + us_of_day t"

definition midnight_us :: "int \<Rightarrow> int" where
  "midnight_us ordinal = ordinal * us_per_day"

section \<open>The persistence store (models.py)\<close>

text \<open>
  One record type per table, a nullable column as an \<open>option\<close>. A table is the list of
  its rows; \<open>query(...).filter(p).first()\<close> is \<open>find p\<close> on that list and
  \<open>.all()\<close> is \<open>filter p\<close>. Floats are modelled by the reals: rounding is not part
  of the model. Python integers are unbounded and are modelled by \<open>int\<close>; an
  \<open>Integer\<close> column holds 32 bits, and a commit that writes a value outside that range
  raises \<open>DataError\<close> and stores nothing. JSON columns are opaque strings.
\<close>

type_synonym json = string

record user =
  u_id :: int
  u_email :: string
  u_hashed_pwd :: "string option"
  u_number :: "string option"
  u_name :: "string option"
  u_external_provider :: bool
  u_is_active :: bool

record location =
  l_id :: int
  l_name :: string
  l_cleanliness_score :: "real option"
  l_geojson :: json

record booking =
  b_id :: int
  b_date :: date
  b_start_time :: string
  b_end_time :: string
  b_est_volunteers :: "string option"
  b_num_volunteers :: "int option"
  b_status :: string
  b_collected_weight :: "real option"
  b_attendance :: int
  b_external :: bool
  b_user_id :: "int option"
  b_location_id :: int

record feedback =
  f_id :: int
  f_datetime :: datetime
  f_title :: "string option"
  f_comment :: "string option"
  f_image_url :: "string option"
  f_coords :: "json option"
  f_location_id :: "int option"
  f_booking_id :: int

record historical_monthly_flotsam =
  h_id :: int
  h_month :: int
  h_weight :: real
  h_location_id :: int

definition in_int32 :: "int \<Rightarrow> bool" where
  "in_int32 n = (- 2147483648 \<le> n \<and> n \<le> 2147483647)"

text \<open>
  The session \<open>db\<close>: the five tables, and for each table that the routes insert into the
  last value of its primary-key sequence (the store hands out the next one at commit).
\<close>

record db =
  users :: "user list"
  locations :: "location list"
  bookings :: "booking list"
  feedbacks :: "feedback list"
  flotsam :: "historical_monthly_flotsam list"
  users_id_seq :: int
  bookings_id_seq :: int
  feedback_id_seq :: int

section \<open>Score engine (api/routes/locations.py)\<close>

definition month_days :: "(int \<times> int) list" where
  "month_days =
     [(1, 31), (2, 28), (3, 31), (4, 30), (5, 31), (6, 30),
      (7, 31), (8, 31), (9, 30), (10, 31), (11, 30), (12, 31)]"

text \<open>\<open>month_days[k]\<close>: a key that is not in the dictionary raises \<open>KeyError\<close>.\<close>

definition month_days_at :: "int \<Rightarrow> py_exception + int" where
  "month_days_at k = (case map_of month_days k of None \<Rightarrow> Inl KeyError | Some n \<Rightarrow> Inr n)"

definition prev_mth_no :: "int \<Rightarrow> int" where
  "prev_mth_no curr_mth_no = (12 + curr_mth_no - 1) mod 12"

definition flotsam_record :: "db \<Rightarrow> int \<Rightarrow> int \<Rightarrow> historical_monthly_flotsam option" where
  "flotsam_record s location_id mth_no =
     find (\<lambda>h. h_location_id h = location_id \<and> h_month h = mth_no) (flotsam s)"

definition curr_mth_record :: "int \<Rightarrow> db \<Rightarrow> date \<Rightarrow> historical_monthly_flotsam option" where
  "curr_mth_record location_id s query_date =
     flotsam_record s location_id (month query_date)"

definition prev_mth_record :: "int \<Rightarrow> db \<Rightarrow> date \<Rightarrow> historical_monthly_flotsam option" where
  "prev_mth_record location_id s query_date =
     flotsam_record s location_id (prev_mth_no (month query_date))"

definition get_cleanliness_score :: "int \<Rightarrow> db \<Rightarrow> date \<Rightarrow> py_exception + real" where
  "get_cleanliness_score location_id s query_date =
     (case (curr_mth_record location_id s query_date,
            prev_mth_record location_id s query_date) of
        (Some c, Some p) \<Rightarrow>
          (case month_days_at (month query_date) of
             Inl e \<Rightarrow> Inl e
           | Inr days_curr \<Rightarrow>
               (let remaining_days = days_curr - day query_date
                in case month_days_at (prev_mth_no (month query_date)) of
                     Inl e \<Rightarrow> Inl e
                   | Inr days_prev \<Rightarrow>
                       Inr ((real_of_int remaining_days / real_of_int days_prev) * h_weight p
                            + (real_of_int (day query_date) / real_of_int days_curr)
                              * h_weight c)))
      | _ \<Rightarrow> Inr (- 1))"

subsection \<open>The specification's reading of the score\<close>

text \<open>
  These two definitions follow the words of the specification, not the code: the month
  before \<open>M\<close> is \<open>((M - 2) mod 12) + 1\<close>, a month has its fixed Gregorian length with
  February always 28 days, and the score blends the two monthly weights.
\<close>

definition spec_prev_month :: "int \<Rightarrow> int" where
  "spec_prev_month m = ((m - 2) mod 12) + 1"

definition spec_days_in_month :: "int \<Rightarrow> int" where
  "spec_days_in_month m =
     (if m = 2 then 28 else if m = 4 \<or> m = 6 \<or> m = 9 \<or> m = 11 then 30 else 31)"

definition spec_score :: "int \<Rightarrow> int \<Rightarrow> int \<Rightarrow> real \<Rightarrow> real \<Rightarrow> real" where
  "spec_score daysInM daysInP d weightP weightM =
     (real_of_int (daysInM - d) / real_of_int daysInP) * weightP
     + (real_of_int d / real_of_int daysInM) * weightM"

text \<open>
  The data model's invariant on the historical table: a row is the sample of a calendar
  month, so its month number is one of 1 .. 12.
\<close>

definition calendar_months :: "db \<Rightarrow> bool" where
  "calendar_months s = list_all (\<lambda>h. 1 \<le> h_month h \<and> h_month h \<le> 12) (flotsam s)"

subsection \<open>A store with a January and a December sample\<close>

definition jan_row :: historical_monthly_flotsam where
  "jan_row = \<lparr>h_id = 1, h_month = 1, h_weight = 20, h_location_id = 7\<rparr>"

definition dec_row :: historical_monthly_flotsam where
  "dec_row = \<lparr>h_id = 2, h_month = 12, h_weight = 10, h_location_id = 7\<rparr>"

definition winter_db :: db where
  "winter_db =
     \<lparr>users = [], locations = [], bookings = [], feedbacks = [],
      flotsam = [jan_row, dec_row],
      users_id_seq = 0, bookings_id_seq = 0, feedback_id_seq = 0\<rparr>"

definition jan_15 :: date where
  "jan_15 = \<lparr>year = 2024, month = 1, day = 15\<rparr>"

definition feb_10 :: date where
  "feb_10 = \<lparr>year = 2024, month = 2, day = 10\<rparr>"

text \<open>A store with a January sample and a row whose month number is 0, and no December.\<close>

definition month_0_row :: historical_monthly_flotsam where
  "month_0_row = \<lparr>h_id = 3, h_month = 0, h_weight = 5, h_location_id = 7\<rparr>"

definition month_0_db :: db where
  "month_0_db = winter_db\<lparr>flotsam := [jan_row, month_0_row]\<rparr>"

section \<open>Identity (auth.py)\<close>

text \<open>
  What \<open>jwt.decode\<close> makes of a bearer token: it raises \<open>InvalidTokenError\<close>, or it
  gives a payload whose \<open>sub\<close> entry is an email or is missing. The decoder itself is a
  collaborator and is passed to every route that reads a token, as are the password
  hash, its verifier and the issuer of access tokens.
\<close>

datatype decoded = InvalidTokenError | Payload "string option"

text \<open>The \<open>try\<close> block that opens every identity-gated route.\<close>

definition token_email :: "(string \<Rightarrow> decoded) \<Rightarrow> string \<Rightarrow> json_response + string" where
  "token_email jwt_decode token =
     (case jwt_decode token of
        InvalidTokenError \<Rightarrow> Inl INVALID_CREDENTIALS
      | Payload None \<Rightarrow> Inl INVALID_CREDENTIALS
      | Payload (Some email) \<Rightarrow> Inr email)"

definition get_user :: "db \<Rightarrow> string \<Rightarrow> user option" where
  "get_user s email = find (\<lambda>u. u_email u = email) (users s)"

text \<open>\<open>PWD_CONTEXT.verify\<close> answers \<open>False\<close> for an account that has no hash.\<close>

definition verify_password :: "(string \<Rightarrow> string \<Rightarrow> bool) \<Rightarrow> string \<Rightarrow> string option \<Rightarrow> bool" where
  "verify_password pwd_verify plain_password hashed_password =
     (case hashed_password of None \<Rightarrow> False | Some h \<Rightarrow> pwd_verify plain_password h)"

record user_create =
  uc_email :: string
  uc_name :: "string option"
  uc_password :: string
  uc_external_provider :: bool

record user_create_external_provider =
  xp_email :: string
  xp_name :: "string option"
  xp_external_provider :: bool

text \<open>
  \<open>db.add(user); db.commit(); db.refresh(user)\<close>: the row gets the next key of the
  sequence and the column defaults. The \<open>email\<close> column is unique, so the commit of a
  second row with a stored email raises and stores nothing.
\<close>

definition add_user :: "db \<Rightarrow> user \<Rightarrow> (py_exception + user) \<times> db" where
  "add_user s u =
     (if list_ex (\<lambda>v. u_email v = u_email u) (users s) then (Inl IntegrityError, s)
      else (let u' = u\<lparr>u_id := users_id_seq s + 1\<rparr>
            in (Inr u', s\<lparr>users := users s @ [u'], users_id_seq := users_id_seq s + 1\<rparr>)))"

definition create_user :: "(string \<Rightarrow> string) \<Rightarrow> db \<Rightarrow> user_create \<Rightarrow> (py_exception + user) \<times> db" where
  "create_user pwd_hash s usr =
     add_user s
       \<lparr>u_id = 0, u_email = uc_email usr, u_hashed_pwd = Some (pwd_hash (uc_password usr)),
        u_number = None, u_name = uc_name usr, u_external_provider = False,
        u_is_active = True\<rparr>"

definition create_user_external_provider ::
    "db \<Rightarrow> user_create_external_provider \<Rightarrow> (py_exception + user) \<times> db" where
  "create_user_external_provider s usr =
     add_user s
       \<lparr>u_id = 0, u_email = xp_email usr, u_hashed_pwd = None,
        u_number = None, u_name = xp_name usr, u_external_provider = True,
        u_is_active = True\<rparr>"

definition authenticate_user ::
    "(string \<Rightarrow> string \<Rightarrow> bool) \<Rightarrow> string \<Rightarrow> string \<Rightarrow> db \<Rightarrow> user option" where
  "authenticate_user pwd_verify email password s =
     (case get_user s email of
        None \<Rightarrow> None
      | Some u \<Rightarrow>
          if \<not> verify_password pwd_verify password (u_hashed_pwd u) then None else Some u)"

section \<open>Registration (main.py)\<close>

record token =
  access_token :: string
  token_type :: string

text \<open>
  \<open>register_user\<close>: the value the route returns and the store it leaves. The entries it
  writes into the request's session are not part of the model.
\<close>

definition register_user ::
    "(string \<Rightarrow> string) \<Rightarrow> (string \<Rightarrow> string \<Rightarrow> bool) \<Rightarrow> (string \<Rightarrow> string) \<Rightarrow>
     user_create \<Rightarrow> db \<Rightarrow> (failure + token) \<times> db" where
  "register_user pwd_hash pwd_verify create_access_token usr s =
     (case get_user s (uc_email usr) of
        Some stored_user \<Rightarrow> (Inl (Returned EMAIL_USED), s)
      | None \<Rightarrow>
          (case create_user pwd_hash s usr of
             (Inl e, s') \<Rightarrow> (Inl (Raised e), s')
           | (Inr new_user, s') \<Rightarrow>
               (case authenticate_user pwd_verify (u_email new_user) (uc_password usr) s' of
                  None \<Rightarrow> (Inl (Returned INVALID_CREDENTIALS), s')
                | Some stored_user \<Rightarrow>
                    (Inr \<lparr>access_token = create_access_token (u_email stored_user),
                          token_type = ''bearer''\<rparr>, s'))))"

section \<open>Bookings (api/routes/bookings.py)\<close>

text \<open>
  Each route is modelled by the value its function returns, paired with the store after
  it. A row fetched with \<open>.first()\<close> and changed is written back at \<open>commit\<close> under its
  primary key, and the commit raises \<open>DataError\<close> when an integer written does not fit
  its column. \<open>db.delete\<close> removes the row under its primary key; the feedback rows
  of the booking would be left without their booking, which the \<open>booking_id\<close> column
  does not allow, so the commit of a delete raises \<open>IntegrityError\<close> and removes nothing
  when the booking has feedback.
\<close>

record booking_create =
  bc_date :: date
  bc_start_time :: string
  bc_end_time :: string
  bc_est_volunteers :: string
  bc_num_volunteers :: int
  bc_location_id :: int

record booking_update =
  bu_date :: date
  bu_start_time :: string
  bu_end_time :: string
  bu_est_volunteers :: string
  bu_num_volunteers :: int
  bu_status :: string
  bu_collected_weight :: "real option"

record feedback_create =
  fc_title :: string
  fc_comment :: "string option"
  fc_image_url :: "string option"
  fc_coords :: "json option"

definition get_booking :: "db \<Rightarrow> int \<Rightarrow> booking option" where
  "get_booking s booking_id = find (\<lambda>b. b_id b = booking_id) (bookings s)"

definition get_location :: "db \<Rightarrow> int \<Rightarrow> location option" where
  "get_location s location_id = find (\<lambda>l. l_id l = location_id) (locations s)"

definition store_booking :: "db \<Rightarrow> booking \<Rightarrow> db" where
  "store_booking s b =
     s\<lparr>bookings := map (\<lambda>r. if b_id r = b_id b then b else r) (bookings s)\<rparr>"

definition create_booking ::
    "(string \<Rightarrow> decoded) \<Rightarrow> string \<Rightarrow> booking_create \<Rightarrow> db \<Rightarrow> (failure + booking) \<times> db" where
  "create_booking jwt_decode tok booking_new s =
     (case token_email jwt_decode tok of
        Inl r \<Rightarrow> (Inl (Returned r), s)
      | Inr email \<Rightarrow>
          (let usr = find (\<lambda>u. u_email u = email) (users s);
               loc = get_location s (bc_location_id booking_new)
           in case loc of
                None \<Rightarrow> (Inl (Returned LOCATION_NOT_FOUND), s)
              | Some l \<Rightarrow>
                  (case usr of
                     None \<Rightarrow> (Inl (Raised AttributeError), s)
                   | Some u \<Rightarrow>
                       (let b = \<lparr>b_id = bookings_id_seq s + 1,
                                 b_date = bc_date booking_new,
                                 b_start_time = bc_start_time booking_new,
                                 b_end_time = bc_end_time booking_new,
                                 b_est_volunteers = Some (bc_est_volunteers booking_new),
                                 b_num_volunteers = Some (bc_num_volunteers booking_new),
                                 b_status = ''scheduled'',
                                 b_collected_weight = None,
                                 b_attendance = 0,
                                 b_external = False,
                                 b_user_id = Some (u_id u),
                                 b_location_id = bc_location_id booking_new\<rparr>
                        in if in_int32 (bc_num_volunteers booking_new)
                           then (Inr b, s\<lparr>bookings := bookings s @ [b],
                                            bookings_id_seq := bookings_id_seq s + 1\<rparr>)
                           else (Inl (Raised DataError), s)))))"

text \<open>\<open>if booking_new.collected_weight:\<close> tests the truth value of an optional float.\<close>

definition truthy :: "real option \<Rightarrow> bool" where
  "truthy w = (case w of None \<Rightarrow> False | Some x \<Rightarrow> x \<noteq> 0)"

definition update_booking ::
    "(string \<Rightarrow> decoded) \<Rightarrow> string \<Rightarrow> int \<Rightarrow> booking_update \<Rightarrow> db \<Rightarrow> (failure + booking) \<times> db" where
  "update_booking jwt_decode tok booking_id booking_new s =
     (case token_email jwt_decode tok of
        Inl r \<Rightarrow> (Inl (Returned r), s)
      | Inr email \<Rightarrow>
          (let usr = get_user s email;
               db_booking = get_booking s booking_id
           in case db_booking of
                None \<Rightarrow> (Inl (Returned BOOKING_NOT_FOUND), s)
              | Some b \<Rightarrow>
                  (case usr of
                     None \<Rightarrow> (Inl (Raised AttributeError), s)
                   | Some u \<Rightarrow>
                       if b_user_id b \<noteq> Some (u_id u)
                       then (Inl (Returned BOOKING_MODIFY_UNAUTHORIZED), s)
                       else
                         (let b1 = b\<lparr>b_date := bu_date booking_new,
                                     b_start_time := bu_start_time booking_new,
                                     b_end_time := bu_end_time booking_new,
                                     b_est_volunteers := Some (bu_est_volunteers booking_new),
                                     b_num_volunteers := Some (bu_num_volunteers booking_new),
                                     b_status := bu_status booking_new\<rparr>;
                              b2 = (if truthy (bu_collected_weight booking_new)
                                    then b1\<lparr>b_collected_weight := bu_collected_weight booking_new\<rparr>
                                    else b1)
                          in if in_int32 (bu_num_volunteers booking_new)
                             then (Inr b2, store_booking s b2)
                             else (Inl (Raised DataError), s)))))"

definition db_delete_booking ::
    "(string \<Rightarrow> decoded) \<Rightarrow> string \<Rightarrow> int \<Rightarrow> db \<Rightarrow> (failure + string) \<times> db" where
  "db_delete_booking jwt_decode tok booking_id s =
     (case token_email jwt_decode tok of
        Inl r \<Rightarrow> (Inl (Returned r), s)
      | Inr email \<Rightarrow>
          (let usr = get_user s email;
               bk = get_booking s booking_id
           in case bk of
                None \<Rightarrow> (Inl (Returned BOOKING_NOT_FOUND), s)
              | Some b \<Rightarrow>
                  (case usr of
                     None \<Rightarrow> (Inl (Raised AttributeError), s)
                   | Some u \<Rightarrow>
                       if b_user_id b \<noteq> Some (u_id u)
                       then (Inl (Returned BOOKING_MODIFY_UNAUTHORIZED), s)
                       else if list_ex (\<lambda>f. f_booking_id f = b_id b) (feedbacks s)
                       then (Inl (Raised IntegrityError), s)
                       else (Inr ''Booking deleted successfully'',
                             s\<lparr>bookings := filter (\<lambda>r. b_id r \<noteq> b_id b) (bookings s)\<rparr>))))"

text \<open>\<open>create_feedback\<close>; \<open>now\<close> is the value of \<open>dt.datetime.now()\<close> at the call.\<close>

definition create_feedback ::
    "datetime \<Rightarrow> int \<Rightarrow> feedback_create \<Rightarrow> db \<Rightarrow> (failure + feedback) \<times> db" where
  "create_feedback now booking_id fb s =
     (case get_booking s booking_id of
        None \<Rightarrow> (Inl (Returned BOOKING_NOT_FOUND), s)
      | Some b \<Rightarrow>
          (let row = \<lparr>f_id = feedback_id_seq s + 1,
                      f_datetime = now,
                      f_title = Some (fc_title fb),
                      f_comment = fc_comment fb,
                      f_image_url = fc_image_url fb,
                      f_coords = fc_coords fb,
                      f_location_id = Some (b_location_id b),
                      f_booking_id = booking_id\<rparr>
           in (Inr row, s\<lparr>feedbacks := feedbacks s @ [row],
                            feedback_id_seq := feedback_id_seq s + 1\<rparr>)))"

definition increment_attendance :: "int \<Rightarrow> db \<Rightarrow> (failure + booking) \<times> db" where
  "increment_attendance booking_id s =
     (case get_booking s booking_id of
        None \<Rightarrow> (Inl (Returned BOOKING_NOT_FOUND), s)
      | Some b \<Rightarrow>
          (let b' = b\<lparr>b_attendance := b_attendance b + 1\<rparr>
           in if in_int32 (b_attendance b')
              then (Inr b', store_booking s b')
              else (Inl (Raised DataError), s)))"

section \<open>Feedback listing (api/routes/feedback.py)\<close>

definition read_feedback :: "int \<Rightarrow> date \<Rightarrow> db \<Rightarrow> py_exception + feedback list" where
  "read_feedback location_id date_day s =
     (case date_add_days date_day 1 of
        Inl e \<Rightarrow> Inl e
      | Inr upper \<Rightarrow>
          (case date_add_days date_day (- 30) of
             Inl e \<Rightarrow> Inl e
           | Inr lower \<Rightarrow>
               Inr (filter
                     (\<lambda>f. f_location_id f = Some location_id
                          \<and> timestamp_us (f_datetime f) \<le> midnight_us upper
                          \<and> timestamp_us (f_datetime f) \<ge> midnight_us lower)
                     (feedbacks s))))"

subsection \<open>The specification's reading of the feedback window\<close>

text \<open>
  This definition follows the words of the specification, not the code: the rows of the
  location whose timestamp lies in the half-open interval from \<open>D - 30 days\<close> (included)
  to \<open>D + 1 day\<close> (excluded).
\<close>

definition spec_feedback_window :: "int \<Rightarrow> date \<Rightarrow> db \<Rightarrow> feedback list" where
  "spec_feedback_window location_id date_day s =
     filter
       (\<lambda>f. f_location_id f = Some location_id
            \<and> midnight_us (toordinal date_day - 30) \<le> timestamp_us (f_datetime f)
            \<and> timestamp_us (f_datetime f) < midnight_us (toordinal date_day + 1))
       (feedbacks s)"

section \<open>Example stores and requests\<close>

text \<open>
  A decoder that reads the email off the token, a hash that prefixes the password, and a
  store with two users (Bob was provisioned by the identity provider and has no
  password), one location and one booking owned by Alice.
\<close>

definition plain_decode :: "string \<Rightarrow> decoded" where
  "plain_decode tok = (if tok = [] then InvalidTokenError else Payload (Some tok))"

definition toy_hash :: "string \<Rightarrow> string" where
  "toy_hash password = CHR ''#'' # password"

definition toy_verify :: "string \<Rightarrow> string \<Rightarrow> bool" where
  "toy_verify password hashed = (hashed = toy_hash password)"

definition toy_token :: "string \<Rightarrow> string" where
  "toy_token email = ''jwt:'' @ email"

definition alice :: user where
  "alice = \<lparr>u_id = 1, u_email = ''alice@example.org'', u_hashed_pwd = Some ''h1'',
            u_number = None, u_name = Some ''Alice'', u_external_provider = False,
            u_is_active = True\<rparr>"

definition bob :: user where
  "bob = \<lparr>u_id = 2, u_email = ''bob@example.org'', u_hashed_pwd = None,
          u_number = None, u_name = None, u_external_provider = True,
          u_is_active = True\<rparr>"

definition east_beach :: location where
  "east_beach = \<lparr>l_id = 7, l_name = ''East Beach'', l_cleanliness_score = None,
                 l_geojson = ''{}''\<rparr>"

definition apr_4 :: date where
  "apr_4 = \<lparr>year = 2024, month = 4, day = 4\<rparr>"

definition apr_5 :: date where
  "apr_5 = \<lparr>year = 2024, month = 4, day = 5\<rparr>"

definition may_4 :: date where
  "may_4 = \<lparr>year = 2024, month = 5, day = 4\<rparr>"

definition may_5 :: date where
  "may_5 = \<lparr>year = 2024, month = 5, day = 5\<rparr>"

definition may_6 :: date where
  "may_6 = \<lparr>year = 2024, month = 5, day = 6\<rparr>"

definition alice_booking :: booking where
  "alice_booking =
     \<lparr>b_id = 10, b_date = may_4, b_start_time = ''09:00'', b_end_time = ''11:00'',
      b_est_volunteers = Some ''10-20'', b_num_volunteers = Some 12,
      b_status = ''scheduled'', b_collected_weight = Some 5, b_attendance = 3,
      b_external = False, b_user_id = Some 1, b_location_id = 7\<rparr>"

definition beach_db :: db where
  "beach_db =
     \<lparr>users = [alice, bob], locations = [east_beach], bookings = [alice_booking],
      feedbacks = [], flotsam = [],
      users_id_seq = 2, bookings_id_seq = 10, feedback_id_seq = 0\<rparr>"

definition full_booking :: booking where
  "full_booking = alice_booking\<lparr>b_attendance := 2147483647\<rparr>"

definition full_db :: db where
  "full_db = beach_db\<lparr>bookings := [full_booking]\<rparr>"

definition zero_weight_update :: booking_update where
  "zero_weight_update =
     \<lparr>bu_date = may_5, bu_start_time = ''10:00'', bu_end_time = ''12:00'',
      bu_est_volunteers = ''5-10'', bu_num_volunteers = 8, bu_status = ''completed'',
      bu_collected_weight = Some 0\<rparr>"

definition alice_booking_after :: booking where
  "alice_booking_after =
     \<lparr>b_id = 10, b_date = may_5, b_start_time = ''10:00'', b_end_time = ''12:00'',
      b_est_volunteers = Some ''5-10'', b_num_volunteers = Some 8,
      b_status = ''completed'', b_collected_weight = Some 5, b_attendance = 3,
      b_external = False, b_user_id = Some 1, b_location_id = 7\<rparr>"

definition booking_elsewhere :: booking_create where
  "booking_elsewhere =
     \<lparr>bc_date = may_5, bc_start_time = ''10:00'', bc_end_time = ''12:00'',
      bc_est_volunteers = ''5-10'', bc_num_volunteers = 8, bc_location_id = 8\<rparr>"

definition noon_may_5 :: datetime where
  "noon_may_5 = \<lparr>on_date = may_5, us_of_day = 43200000000\<rparr>"

definition litter_report :: feedback_create where
  "litter_report =
     \<lparr>fc_title = ''Nets on the shore'', fc_comment = None, fc_image_url = None,
      fc_coords = None\<rparr>"

definition report_at :: "int \<Rightarrow> date \<Rightarrow> int \<Rightarrow> feedback" where
  "report_at i d us =
     \<lparr>f_id = i, f_datetime = \<lparr>on_date = d, us_of_day = us\<rparr>, f_title = Some ''Debris'',
      f_comment = None, f_image_url = None, f_coords = None, f_location_id = Some 7,
      f_booking_id = 10\<rparr>"

definition feedback_db :: db where
  "feedback_db =
     beach_db\<lparr>feedbacks :=
       [report_at 1 apr_4 86399999999, report_at 2 apr_5 0, report_at 3 may_5 43200000000,
        report_at 4 may_6 0, report_at 5 may_6 1],
       feedback_id_seq := 5\<rparr>"

definition bob_local :: user_create where
  "bob_local = \<lparr>uc_email = ''bob@example.org'', uc_name = None, uc_password = ''secret'',
                uc_external_provider = False\<rparr>"

definition carol_google :: user_create_external_provider where
  "carol_google = \<lparr>xp_email = ''carol@example.org'', xp_name = None,
                   xp_external_provider = True\<rparr>"

definition carol_local :: user_create where
  "carol_local = \<lparr>uc_email = ''carol@example.org'', uc_name = None, uc_password = ''secret'',
                  uc_external_provider = False\<rparr>"

section \<open>Properties of the score engine\<close>

lemma prev_mth_no_after_january:
  assumes "2 \<le> m" and "m \<le> 12"
  shows "prev_mth_no m = spec_prev_month m"
proof -
  have "(12 + m - 1) mod 12 = (m - 1) mod 12"
    by (metis add.commute add_diff_eq mod_add_self1)
  moreover have "(m - 1) mod 12 = m - 1" using assms by simp
  moreover have "(m - 2) mod 12 = m - 2" using assms by simp
  ultimately show ?thesis by (simp add: prev_mth_no_def spec_prev_month_def)
qed

lemma prev_mth_no_january: "prev_mth_no 1 = 0"
  by (simp add: prev_mth_no_def)

lemma no_month_zero:
  assumes "calendar_months s"
  shows "flotsam_record s location_id 0 = None"
  using assms
  by (auto simp: calendar_months_def flotsam_record_def find_None_iff list_all_iff)

lemma score_without_curr:
  "curr_mth_record location_id s d = None \<Longrightarrow> get_cleanliness_score location_id s d = Inr (- 1)"
  by (simp add: get_cleanliness_score_def)

lemma score_without_prev:
  "prev_mth_record location_id s d = None \<Longrightarrow> get_cleanliness_score location_id s d = Inr (- 1)"
  by (simp add: get_cleanliness_score_def split: option.splits)

lemma month_cases:
  assumes "1 \<le> (m::int)" and "m \<le> 12"
  shows "m = 1 \<or> m = 2 \<or> m = 3 \<or> m = 4 \<or> m = 5 \<or> m = 6 \<or> m = 7 \<or> m = 8
         \<or> m = 9 \<or> m = 10 \<or> m = 11 \<or> m = 12"
  using assms by presburger

lemma month_days_at_calendar:
  assumes "1 \<le> m" and "m \<le> 12"
  shows "month_days_at m = Inr (spec_days_in_month m)"
  using month_cases [OF assms]
  by (elim disjE) (simp_all add: month_days_at_def month_days_def spec_days_in_month_def)

lemma spec_prev_month_range:
  assumes "1 \<le> m" and "m \<le> 12"
  shows "1 \<le> spec_prev_month m \<and> spec_prev_month m \<le> 12"
  using month_cases [OF assms]
  by (elim disjE) (simp_all add: spec_prev_month_def)

lemma valid_date_month: "valid_date d \<Longrightarrow> 1 \<le> month d \<and> month d \<le> 12"
  by (simp add: valid_date_def)

text \<open>
  From February to December the code looks up the month the specification names and
  returns the blend the specification writes down, with February at 28 days in every
  year. The equation is one of exact arithmetic: the code rounds each operation to a
  binary64 float, which the model does not.
\<close>

lemma score_after_january:
  assumes "valid_date d" and "month d \<noteq> 1"
    and "flotsam_record s location_id (month d) = Some c"
    and "flotsam_record s location_id (spec_prev_month (month d)) = Some p"
  shows "get_cleanliness_score location_id s d
         = Inr (spec_score (spec_days_in_month (month d))
                  (spec_days_in_month (spec_prev_month (month d)))
                  (day d) (h_weight p) (h_weight c))"
proof -
  from assms(1) have m: "1 \<le> month d" "month d \<le> 12"
    by (simp_all add: valid_date_month)
  with assms(2) have "2 \<le> month d" by simp
  then have same: "prev_mth_no (month d) = spec_prev_month (month d)"
    using m(2) by (rule prev_mth_no_after_january)
  have dm: "month_days_at (month d) = Inr (spec_days_in_month (month d))"
    using m by (rule month_days_at_calendar)
  have dp: "month_days_at (spec_prev_month (month d))
              = Inr (spec_days_in_month (spec_prev_month (month d)))"
    using spec_prev_month_range [OF m] by (simp add: month_days_at_calendar)
  show ?thesis
    using assms(3,4)
    by (simp add: get_cleanliness_score_def curr_mth_record_def prev_mth_record_def
        same dm dp spec_score_def)
qed

text \<open>
  C1. The claim: the month before \<open>M\<close> is \<open>((M - 2) mod 12) + 1\<close>, December for January,
  and the second record fetched is the one of that month. The code computes
  \<open>(12 + M - 1) mod 12\<close>, which is 0 for January: on a store that holds the December
  sample of location 7, a January query asks for month 0 and fetches nothing.
\<close>

theorem january_prev_mth_no:
  "prev_mth_no 1 = 0 \<and> spec_prev_month 1 = 12
   \<and> flotsam_record winter_db 7 (spec_prev_month (month jan_15)) = Some dec_row
   \<and> prev_mth_record 7 winter_db jan_15 = None"
  by (simp add: prev_mth_no_def spec_prev_month_def flotsam_record_def prev_mth_record_def
      winter_db_def jan_15_def jan_row_def dec_row_def)

text \<open>
  C2. The claim: with both monthly records present the score is
  \<open>((daysInM - d) / daysInP) * weight(P) + (d / daysInM) * weight(M)\<close>. On 15 January,
  with the January and the December sample of location 7 stored, the code returns the
  sentinel \<open>-1\<close>, where the formula gives \<open>460 / 31\<close>.
\<close>

theorem january_score:
  "curr_mth_record 7 winter_db jan_15 = Some jan_row
   \<and> flotsam_record winter_db 7 (spec_prev_month (month jan_15)) = Some dec_row
   \<and> get_cleanliness_score 7 winter_db jan_15 = Inr (- 1)
   \<and> spec_score (spec_days_in_month (month jan_15))
         (spec_days_in_month (spec_prev_month (month jan_15)))
         (day jan_15) (h_weight dec_row) (h_weight jan_row) = 460 / 31"
  by (simp add: get_cleanliness_score_def prev_mth_no_def spec_prev_month_def flotsam_record_def
      prev_mth_record_def curr_mth_record_def spec_score_def spec_days_in_month_def
      winter_db_def jan_15_def jan_row_def dec_row_def)

text \<open>
  When one of the two records the code itself looks up is absent, the sentinel \<open>-1\<close> is
  returned, on every store. On a store whose rows are samples of calendar months the
  same holds for the records the specification names, since a January query then never
  finds its month 0.
\<close>

lemma score_unavailable_fetched:
  assumes "curr_mth_record location_id s query_date = None
           \<or> prev_mth_record location_id s query_date = None"
  shows "get_cleanliness_score location_id s query_date = Inr (- 1)"
  using assms score_without_curr score_without_prev by blast

lemma score_unavailable_calendar:
  assumes "valid_date query_date"
    and "calendar_months s"
    and "flotsam_record s location_id (month query_date) = None
         \<or> flotsam_record s location_id (spec_prev_month (month query_date)) = None"
  shows "get_cleanliness_score location_id s query_date = Inr (- 1)"
proof (cases "month query_date = 1")
  case True
  then have "prev_mth_record location_id s query_date = None"
    using assms(2) by (simp add: prev_mth_record_def prev_mth_no_january no_month_zero)
  then show ?thesis by (rule score_without_prev)
next
  case False
  from assms(1) have m: "1 \<le> month query_date" "month query_date \<le> 12"
    by (simp_all add: valid_date_month)
  with False have "2 \<le> month query_date" by simp
  then have same: "prev_mth_no (month query_date) = spec_prev_month (month query_date)"
    using m(2) by (rule prev_mth_no_after_january)
  from assms(3) show ?thesis
  proof
    assume "flotsam_record s location_id (month query_date) = None"
    then show ?thesis by (simp add: score_without_curr curr_mth_record_def)
  next
    assume "flotsam_record s location_id (spec_prev_month (month query_date)) = None"
    then show ?thesis by (simp add: score_without_prev prev_mth_record_def same)
  qed
qed

text \<open>
  C3. The claim: whenever the record of the current month or of the preceding month
  (December for January) is absent for the location, the score computation returns the
  sentinel \<open>-1\<close> as an ordinary value. On 15 January, with a January row and a row of
  month number 0 stored for location 7 and no December row, the preceding month's
  record is absent, the code finds the row of month 0 in its place, goes on to
  \<open>month_days[0]\<close> and raises \<open>KeyError\<close>.
\<close>

theorem january_without_december:
  "valid_date jan_15
   \<and> flotsam_record month_0_db 7 (spec_prev_month (month jan_15)) = None
   \<and> prev_mth_record 7 month_0_db jan_15 = Some month_0_row
   \<and> get_cleanliness_score 7 month_0_db jan_15 = Inl KeyError"
  by (simp add: valid_date_def days_in_month_def is_leap_def get_cleanliness_score_def
      prev_mth_no_def spec_prev_month_def flotsam_record_def prev_mth_record_def
      curr_mth_record_def month_days_at_def month_days_def month_0_db_def winter_db_def
      jan_15_def jan_row_def dec_row_def month_0_row_def)

section \<open>Properties of the booking routes\<close>

lemma token_email_subject:
  "jwt_decode tok = Payload (Some email) \<Longrightarrow> token_email jwt_decode tok = Inr email"
  by (simp add: token_email_def)

lemma get_booking_id: "get_booking s i = Some b \<Longrightarrow> b_id b = i"
  by (auto simp: get_booking_def find_Some_iff)

lemma find_id_map_same:
  "find (\<lambda>r. b_id r = i) xs = Some b \<Longrightarrow> b_id b' = i \<Longrightarrow>
   find (\<lambda>r. b_id r = i) (map (\<lambda>r. if b_id r = i then b' else r) xs) = Some b'"
  by (induction xs) (auto split: if_splits)

lemma find_id_map_other:
  "j \<noteq> i \<Longrightarrow> b_id b' = i \<Longrightarrow>
   find (\<lambda>r. b_id r = j) (map (\<lambda>r. if b_id r = i then b' else r) xs)
   = find (\<lambda>r. b_id r = j) xs"
  by (induction xs) auto

lemma get_booking_store_same:
  "get_booking s i = Some b \<Longrightarrow> b_id b' = i \<Longrightarrow> get_booking (store_booking s b') i = Some b'"
  by (simp add: get_booking_def store_booking_def find_id_map_same)

lemma get_booking_store_other:
  "j \<noteq> b_id b' \<Longrightarrow> get_booking (store_booking s b') j = get_booking s j"
  by (simp add: get_booking_def store_booking_def find_id_map_other)

text \<open>
  C4. A caller with a valid token who is a stored user but not the owner of an existing
  booking gets \<open>BOOKING_MODIFY_UNAUTHORIZED\<close> (403) from the update route and from the
  delete route, and both leave the store exactly as it was. A booking without an owner
  (an external one) is owned by no caller.
\<close>

theorem non_owner_forbidden:
  assumes "jwt_decode tok = Payload (Some email)"
    and "get_user s email = Some caller"
    and "get_booking s booking_id = Some b"
    and "b_user_id b \<noteq> Some (u_id caller)"
  shows "update_booking jwt_decode tok booking_id booking_new s
           = (Inl (Returned BOOKING_MODIFY_UNAUTHORIZED), s)
         \<and> db_delete_booking jwt_decode tok booking_id s
           = (Inl (Returned BOOKING_MODIFY_UNAUTHORIZED), s)
         \<and> status_code BOOKING_MODIFY_UNAUTHORIZED = 403"
  using assms
  by (simp add: update_booking_def db_delete_booking_def token_email_subject)

theorem non_owner_forbidden_witness:
  "get_user beach_db ''bob@example.org'' = Some bob
   \<and> get_booking beach_db 10 = Some alice_booking
   \<and> update_booking plain_decode ''bob@example.org'' 10 zero_weight_update beach_db
       = (Inl (Returned BOOKING_MODIFY_UNAUTHORIZED), beach_db)
   \<and> db_delete_booking plain_decode ''bob@example.org'' 10 beach_db
       = (Inl (Returned BOOKING_MODIFY_UNAUTHORIZED), beach_db)"
proof -
  have t: "plain_decode ''bob@example.org'' = Payload (Some ''bob@example.org'')"
    by (simp add: plain_decode_def)
  have u: "get_user beach_db ''bob@example.org'' = Some bob"
    by (simp add: get_user_def beach_db_def alice_def bob_def)
  have b: "get_booking beach_db 10 = Some alice_booking"
    by (simp add: get_booking_def beach_db_def alice_booking_def)
  have n: "b_user_id alice_booking \<noteq> Some (u_id bob)"
    by (simp add: alice_booking_def bob_def)
  from non_owner_forbidden
         [where jwt_decode = plain_decode and tok = "''bob@example.org''"
            and booking_new = zero_weight_update, OF t u b n] u b
  show ?thesis by simp
qed

text \<open>
  What an update by the owner writes when the volunteer count fits its column: the six
  schedule fields always, the collected weight when the supplied value is truthy.
\<close>

lemma update_booking_by_owner:
  assumes "jwt_decode tok = Payload (Some email)"
    and "get_user s email = Some caller"
    and "get_booking s booking_id = Some b"
    and "b_user_id b = Some (u_id caller)"
    and "in_int32 (bu_num_volunteers booking_new)"
  shows "\<exists>b'. update_booking jwt_decode tok booking_id booking_new s
                = (Inr b', store_booking s b')
          \<and> b_date b' = bu_date booking_new
          \<and> b_start_time b' = bu_start_time booking_new
          \<and> b_end_time b' = bu_end_time booking_new
          \<and> b_est_volunteers b' = Some (bu_est_volunteers booking_new)
          \<and> b_num_volunteers b' = Some (bu_num_volunteers booking_new)
          \<and> b_status b' = bu_status booking_new
          \<and> b_collected_weight b'
              = (if truthy (bu_collected_weight booking_new)
                 then bu_collected_weight booking_new else b_collected_weight b)"
  using assms by (simp add: update_booking_def token_email_subject Let_def)

text \<open>
  C5. The claim: the collected weight is overwritten if and only if the caller supplied
  a non-null value. The route tests \<open>if booking_new.collected_weight:\<close>, and a supplied
  weight of \<open>0.0\<close> is false: Alice updates her booking (stored weight 5) with weight 0,
  the other fields are overwritten and the stored weight is still 5.
\<close>

theorem update_zero_weight_kept:
  "get_booking beach_db 10 = Some alice_booking
   \<and> b_collected_weight alice_booking = Some 5
   \<and> bu_collected_weight zero_weight_update = Some 0
   \<and> update_booking plain_decode ''alice@example.org'' 10 zero_weight_update beach_db
       = (Inr alice_booking_after, beach_db\<lparr>bookings := [alice_booking_after]\<rparr>)
   \<and> b_collected_weight alice_booking_after = Some 5"
  by (simp add: update_booking_def token_email_def plain_decode_def get_user_def
      get_booking_def store_booking_def truthy_def in_int32_def beach_db_def alice_def bob_def
      alice_booking_def alice_booking_after_def zero_weight_update_def Let_def)

text \<open>
  C6. For a caller with a valid token, creating a booking whose \<open>location_id\<close> names no
  stored location returns \<open>LOCATION_NOT_FOUND\<close> (404) and leaves the store exactly as it
  was: no booking is added.
\<close>

theorem create_booking_unknown_location:
  assumes "jwt_decode tok = Payload (Some email)"
    and "get_location s (bc_location_id booking_new) = None"
  shows "create_booking jwt_decode tok booking_new s = (Inl (Returned LOCATION_NOT_FOUND), s)
         \<and> status_code LOCATION_NOT_FOUND = 404"
  using assms by (simp add: create_booking_def token_email_subject)

theorem create_booking_unknown_location_witness:
  "get_location beach_db (bc_location_id booking_elsewhere) = None
   \<and> create_booking plain_decode ''alice@example.org'' booking_elsewhere beach_db
       = (Inl (Returned LOCATION_NOT_FOUND), beach_db)"
proof -
  have t: "plain_decode ''alice@example.org'' = Payload (Some ''alice@example.org'')"
    by (simp add: plain_decode_def)
  have l: "get_location beach_db (bc_location_id booking_elsewhere) = None"
    by (simp add: get_location_def beach_db_def booking_elsewhere_def east_beach_def)
  from create_booking_unknown_location
         [where jwt_decode = plain_decode and tok = "''alice@example.org''", OF t l] l
  show ?thesis by simp
qed

text \<open>
  The claim C7 as stated promises the increment for every stored booking. The counter
  is a 32-bit column: for a booking whose counter stands at 2147483647 the commit of
  the incremented row raises \<open>DataError\<close>, and the store is as it was.
\<close>

theorem increment_attendance_full_counter:
  "get_booking full_db 10 = Some full_booking
   \<and> b_attendance full_booking = 2147483647
   \<and> increment_attendance 10 full_db = (Inl (Raised DataError), full_db)"
  by (simp add: increment_attendance_def get_booking_def in_int32_def Let_def
      full_db_def full_booking_def beach_db_def alice_booking_def)

text \<open>
  C7, amended. The attendance increment returns \<open>BOOKING_NOT_FOUND\<close> (404) when no
  booking has the id. Otherwise, when the incremented counter fits the 32-bit column, it
  returns the booking with its attendance counter one higher, that row is what the
  store holds under the id afterwards, and every other booking is as it was.
\<close>

theorem increment_attendance_spec:
  "(get_booking s booking_id = None \<longrightarrow>
      increment_attendance booking_id s = (Inl (Returned BOOKING_NOT_FOUND), s)
      \<and> status_code BOOKING_NOT_FOUND = 404)
   \<and> (\<forall>b. get_booking s booking_id = Some b \<and> in_int32 (b_attendance b + 1) \<longrightarrow>
         (\<exists>s'. increment_attendance booking_id s
                 = (Inr (b\<lparr>b_attendance := b_attendance b + 1\<rparr>), s')
           \<and> get_booking s' booking_id = Some (b\<lparr>b_attendance := b_attendance b + 1\<rparr>)
           \<and> (\<forall>j. j \<noteq> booking_id \<longrightarrow> get_booking s' j = get_booking s j)
           \<and> length (bookings s') = length (bookings s)))"
proof (intro conjI allI impI)
  assume "get_booking s booking_id = None"
  then show "increment_attendance booking_id s = (Inl (Returned BOOKING_NOT_FOUND), s)"
    by (simp add: increment_attendance_def)
next
  show "status_code BOOKING_NOT_FOUND = 404" by simp
next
  fix b
  assume a: "get_booking s booking_id = Some b \<and> in_int32 (b_attendance b + 1)"
  then have found: "get_booking s booking_id = Some b"
    and fits: "in_int32 (b_attendance b + 1)"
    by simp_all
  let ?b' = "b\<lparr>b_attendance := b_attendance b + 1\<rparr>"
  have key: "b_id ?b' = booking_id" using get_booking_id [OF found] by simp
  have run: "increment_attendance booking_id s = (Inr ?b', store_booking s ?b')"
    using found fits by (simp add: increment_attendance_def Let_def)
  have same: "get_booking (store_booking s ?b') booking_id = Some ?b'"
    using found key by (rule get_booking_store_same)
  have other: "\<forall>j. j \<noteq> booking_id \<longrightarrow> get_booking (store_booking s ?b') j = get_booking s j"
    using key get_booking_store_other [of _ ?b' s] by simp
  have len: "length (bookings (store_booking s ?b')) = length (bookings s)"
    by (simp add: store_booking_def)
  from run same other len
  show "\<exists>s'. increment_attendance booking_id s = (Inr ?b', s')
           \<and> get_booking s' booking_id = Some ?b'
           \<and> (\<forall>j. j \<noteq> booking_id \<longrightarrow> get_booking s' j = get_booking s j)
           \<and> length (bookings s') = length (bookings s)"
    by blast
qed

theorem increment_attendance_spec_witness:
  "get_booking beach_db 10 = Some alice_booking
   \<and> in_int32 (b_attendance alice_booking + 1)
   \<and> get_booking beach_db 11 = None
   \<and> fst (increment_attendance 10 beach_db) = Inr (alice_booking\<lparr>b_attendance := 4\<rparr>)
   \<and> increment_attendance 11 beach_db = (Inl (Returned BOOKING_NOT_FOUND), beach_db)"
proof -
  have b: "get_booking beach_db 10 = Some alice_booking"
    by (simp add: get_booking_def beach_db_def alice_booking_def)
  have n: "get_booking beach_db 11 = None"
    by (simp add: get_booking_def beach_db_def alice_booking_def)
  have a: "b_attendance alice_booking = 3" by (simp add: alice_booking_def)
  have f: "in_int32 (b_attendance alice_booking + 1)" by (simp add: a in_int32_def)
  from increment_attendance_spec [of beach_db 10] b a f
  have "fst (increment_attendance 10 beach_db) = Inr (alice_booking\<lparr>b_attendance := 4\<rparr>)"
    by auto
  moreover from increment_attendance_spec [of beach_db 11] n
  have "increment_attendance 11 beach_db = (Inl (Returned BOOKING_NOT_FOUND), beach_db)"
    by simp
  ultimately show ?thesis using b n f by simp
qed

text \<open>
  C8. Feedback submission returns \<open>BOOKING_NOT_FOUND\<close> (404) when the booking does not
  exist. Otherwise, whatever the payload (which has no location field), the stored row
  carries the timestamp of the call and the \<open>location_id\<close> of the booking.
\<close>

theorem create_feedback_spec:
  "(get_booking s booking_id = None \<longrightarrow>
      create_feedback now booking_id fb s = (Inl (Returned BOOKING_NOT_FOUND), s)
      \<and> status_code BOOKING_NOT_FOUND = 404)
   \<and> (\<forall>b. get_booking s booking_id = Some b \<longrightarrow>
         (\<exists>row s'. create_feedback now booking_id fb s = (Inr row, s')
           \<and> f_datetime row = now
           \<and> f_location_id row = Some (b_location_id b)
           \<and> f_booking_id row = booking_id
           \<and> f_title row = Some (fc_title fb)
           \<and> feedbacks s' = feedbacks s @ [row]
           \<and> bookings s' = bookings s))"
  by (simp add: create_feedback_def Let_def)

theorem create_feedback_spec_witness:
  "get_booking beach_db 10 = Some alice_booking
   \<and> get_booking beach_db 11 = None
   \<and> map_sum id f_location_id (fst (create_feedback noon_may_5 10 litter_report beach_db))
       = Inr (Some 7)
   \<and> map_sum id f_datetime (fst (create_feedback noon_may_5 10 litter_report beach_db))
       = Inr noon_may_5
   \<and> create_feedback noon_may_5 11 litter_report beach_db
       = (Inl (Returned BOOKING_NOT_FOUND), beach_db)"
proof -
  have b: "get_booking beach_db 10 = Some alice_booking"
    by (simp add: get_booking_def beach_db_def alice_booking_def)
  have n: "get_booking beach_db 11 = None"
    by (simp add: get_booking_def beach_db_def alice_booking_def)
  have l: "b_location_id alice_booking = 7" by (simp add: alice_booking_def)
  from create_feedback_spec [of beach_db 10 noon_may_5 litter_report] b l
  have "map_sum id f_location_id (fst (create_feedback noon_may_5 10 litter_report beach_db))
          = Inr (Some 7)
        \<and> map_sum id f_datetime (fst (create_feedback noon_may_5 10 litter_report beach_db))
          = Inr noon_may_5"
    by auto
  moreover from create_feedback_spec [of beach_db 11 noon_may_5 litter_report] n
  have "create_feedback noon_may_5 11 litter_report beach_db
          = (Inl (Returned BOOKING_NOT_FOUND), beach_db)"
    by simp
  ultimately show ?thesis using b n by simp
qed

section \<open>Properties of the feedback listing\<close>

lemma ord_apr_4: "toordinal apr_4 = 738980"
  by (simp add: toordinal_def apr_4_def
      days_before_year_def days_in_month_def is_leap_def)

lemma ord_apr_5: "toordinal apr_5 = 738981"
  by (simp add: toordinal_def apr_5_def
      days_before_year_def days_in_month_def is_leap_def)

lemma ord_may_5: "toordinal may_5 = 739011"
  by (simp add: toordinal_def may_5_def
      days_before_year_def days_in_month_def is_leap_def)

lemma ord_may_6: "toordinal may_6 = 739012"
  by (simp add: toordinal_def may_6_def
      days_before_year_def days_in_month_def is_leap_def)

lemma ts_report_at:
  "timestamp_us (f_datetime (report_at i d us)) = toordinal d * us_per_day + us"
  by (simp add: report_at_def timestamp_us_def)

lemma loc_report_at: "f_location_id (report_at i d us) = Some 7"
  by (simp add: report_at_def)

text \<open>
  The claim C9 as stated excludes the upper boundary \<open>D + 1 day\<close>. The route compares
  with \<open>\<le>\<close>: for \<open>D\<close> = 2024-05-05 the report stamped 2024-05-06 00:00:00 is listed,
  and the half-open window of the specification does not contain it.
\<close>

theorem read_feedback_upper_edge_included:
  "timestamp_us (f_datetime (report_at 4 may_6 0)) = midnight_us (toordinal may_5 + 1)
   \<and> read_feedback 7 may_5 feedback_db
       = Inr [report_at 2 apr_5 0, report_at 3 may_5 43200000000, report_at 4 may_6 0]
   \<and> spec_feedback_window 7 may_5 feedback_db
       = [report_at 2 apr_5 0, report_at 3 may_5 43200000000]"
  by (simp add: read_feedback_def spec_feedback_window_def date_add_days_def
      date_max_ordinal_def feedback_db_def ts_report_at loc_report_at midnight_us_def
      us_per_day_def ord_apr_4 ord_apr_5 ord_may_5 ord_may_6)

text \<open>
  C9, amended. For every location id \<open>L\<close> and every date \<open>D\<close> for which \<open>D - 30 days\<close>
  and \<open>D + 1 day\<close> are dates, the listing returns exactly the feedback rows whose
  \<open>location_id\<close> is \<open>L\<close> and whose timestamp lies in the closed interval from
  \<open>D - 30 days\<close> to \<open>D + 1 day\<close>, both boundaries included.
\<close>

theorem read_feedback_closed_window:
  assumes "30 < toordinal date_day" and "toordinal date_day < date_max_ordinal"
  shows "read_feedback location_id date_day s
         = Inr (filter
                 (\<lambda>f. f_location_id f = Some location_id
                      \<and> midnight_us (toordinal date_day - 30) \<le> timestamp_us (f_datetime f)
                      \<and> timestamp_us (f_datetime f) \<le> midnight_us (toordinal date_day + 1))
                 (feedbacks s))"
proof -
  have up: "date_add_days date_day 1 = Inr (toordinal date_day + 1)"
    using assms by (simp add: date_add_days_def)
  have lo: "date_add_days date_day (- 30) = Inr (toordinal date_day - 30)"
    using assms by (simp add: date_add_days_def)
  show ?thesis
    unfolding read_feedback_def up lo
    by (auto intro: filter_cong)
qed

theorem read_feedback_closed_window_witness:
  "30 < toordinal may_5 \<and> toordinal may_5 < date_max_ordinal
   \<and> read_feedback 7 may_5 feedback_db
       = Inr [report_at 2 apr_5 0, report_at 3 may_5 43200000000, report_at 4 may_6 0]"
proof -
  have a: "30 < toordinal may_5" by (simp add: ord_may_5)
  have b: "toordinal may_5 < date_max_ordinal" by (simp add: ord_may_5 date_max_ordinal_def)
  from read_feedback_closed_window [OF a b, of 7 feedback_db] a b
  show ?thesis
    by (simp add: feedback_db_def ts_report_at loc_report_at midnight_us_def
        us_per_day_def ord_apr_4 ord_apr_5 ord_may_5 ord_may_6)
qed

section \<open>Properties of registration\<close>

lemma find_snoc_fresh:
  "\<not> list_ex P xs \<Longrightarrow> P x \<Longrightarrow> find P (xs @ [x]) = Some x"
  by (induction xs) auto

lemma add_user_found:
  assumes "add_user s u = (Inr u', s')"
  shows "get_user s' (u_email u) = Some u' \<and> u' = u\<lparr>u_id := users_id_seq s + 1\<rparr>"
  using assms
  by (auto simp: add_user_def get_user_def Let_def find_snoc_fresh split: if_splits)

text \<open>
  C10. Local registration returns \<open>EMAIL_USED\<close> (400) and stores nothing whenever any
  account has the submitted email, whether or not that account has a password. In
  particular, in the store left by provisioning an account for a third-party identity
  (external provider, no password), registering a local password for the same email is
  rejected.
\<close>

theorem register_existing_email:
  "(\<forall>stored. get_user s (uc_email usr) = Some stored \<longrightarrow>
      register_user pwd_hash pwd_verify create_access_token usr s
        = (Inl (Returned EMAIL_USED), s)
      \<and> status_code EMAIL_USED = 400)
   \<and> (\<forall>s0 xp u. create_user_external_provider s0 xp = (Inr u, s)
          \<and> xp_email xp = uc_email usr \<longrightarrow>
        u_external_provider u \<and> u_hashed_pwd u = None
        \<and> register_user pwd_hash pwd_verify create_access_token usr s
            = (Inl (Returned EMAIL_USED), s))"
proof (intro conjI allI impI)
  fix stored
  assume "get_user s (uc_email usr) = Some stored"
  then show "register_user pwd_hash pwd_verify create_access_token usr s
               = (Inl (Returned EMAIL_USED), s)"
    by (simp add: register_user_def)
next
  show "status_code EMAIL_USED = 400" by simp
next
  fix s0 xp u
  assume a: "create_user_external_provider s0 xp = (Inr u, s) \<and> xp_email xp = uc_email usr"
  then have cr: "create_user_external_provider s0 xp = (Inr u, s)"
    and em: "xp_email xp = uc_email usr"
    by simp_all
  from cr have "add_user s0
                \<lparr>u_id = 0, u_email = xp_email xp, u_hashed_pwd = None,
                 u_number = None, u_name = xp_name xp, u_external_provider = True,
                 u_is_active = True\<rparr> = (Inr u, s)"
    by (simp add: create_user_external_provider_def)
  from add_user_found [OF this]
  have "get_user s (xp_email xp) = Some u"
    and row: "u = \<lparr>u_id = 0, u_email = xp_email xp, u_hashed_pwd = None,
                   u_number = None, u_name = xp_name xp, u_external_provider = True,
                   u_is_active = True\<rparr>\<lparr>u_id := users_id_seq s0 + 1\<rparr>"
    by simp_all
  with em have found: "get_user s (uc_email usr) = Some u" by simp
  from row show "u_external_provider u" by simp
  from row show "u_hashed_pwd u = None" by simp
  from found show "register_user pwd_hash pwd_verify create_access_token usr s
               = (Inl (Returned EMAIL_USED), s)"
    by (simp add: register_user_def)
qed

theorem register_existing_email_witness:
  "get_user beach_db (uc_email bob_local) = Some bob
   \<and> u_external_provider bob \<and> u_hashed_pwd bob = None
   \<and> register_user toy_hash toy_verify toy_token bob_local beach_db
       = (Inl (Returned EMAIL_USED), beach_db)
   \<and> fst (create_user_external_provider beach_db carol_google)
       = Inr \<lparr>u_id = 3, u_email = ''carol@example.org'', u_hashed_pwd = None,
              u_number = None, u_name = None, u_external_provider = True,
              u_is_active = True\<rparr>
   \<and> fst (register_user toy_hash toy_verify toy_token carol_local
            (snd (create_user_external_provider beach_db carol_google)))
       = Inl (Returned EMAIL_USED)"
proof -
  have g: "get_user beach_db (uc_email bob_local) = Some bob"
    by (simp add: get_user_def beach_db_def bob_local_def alice_def bob_def)
  have b: "u_external_provider bob \<and> u_hashed_pwd bob = None" by (simp add: bob_def)
  have c1: "fst (create_user_external_provider beach_db carol_google)
             = Inr \<lparr>u_id = 3, u_email = ''carol@example.org'', u_hashed_pwd = None,
                    u_number = None, u_name = None, u_external_provider = True,
                    u_is_active = True\<rparr>"
    by (simp add: create_user_external_provider_def add_user_def carol_google_def
        beach_db_def alice_def bob_def Let_def)
  then have c: "create_user_external_provider beach_db carol_google
             = (Inr \<lparr>u_id = 3, u_email = ''carol@example.org'', u_hashed_pwd = None,
                     u_number = None, u_name = None, u_external_provider = True,
                     u_is_active = True\<rparr>,
                snd (create_user_external_provider beach_db carol_google))"
    by (metis prod.collapse)
  have e: "xp_email carol_google = uc_email carol_local"
    by (simp add: carol_google_def carol_local_def)
  from register_existing_email
         [of beach_db bob_local toy_hash toy_verify toy_token] g
  have r1: "register_user toy_hash toy_verify toy_token bob_local beach_db
              = (Inl (Returned EMAIL_USED), beach_db)"
    by simp
  from register_existing_email
         [of "snd (create_user_external_provider beach_db carol_google)" carol_local
             toy_hash toy_verify toy_token] c e
  have r2: "fst (register_user toy_hash toy_verify toy_token carol_local
                  (snd (create_user_external_provider beach_db carol_google)))
              = Inl (Returned EMAIL_USED)"
    by (metis fst_conv)
  from g b r1 c1 r2 show ?thesis by blast
qed

end
